theory Spec2Isabelle
  imports Complex_Main
begin

section \<open>The browser as the theme module sees it\<close>

text \<open>
  \<^verbatim>\<open>lib/theme\<close> keeps no state of its own: everything it reads and writes belongs to the
  browser. The record below holds exactly the parts of the browser that the five functions
  of the module touch.

  \<^item> \<open>window_defined\<close>, \<open>document_defined\<close>: the outcome of the two \<^verbatim>\<open>typeof\<close> tests.
  \<^item> \<open>storage_denied\<close>: reading the property \<^verbatim>\<open>window.localStorage\<close> throws a
    \<^verbatim>\<open>SecurityError\<close> (site data blocked, sandboxed frame).
  \<^item> \<open>quota_exceeded\<close>: \<^verbatim>\<open>setItem\<close> throws a \<^verbatim>\<open>QuotaExceededError\<close> (storage full,
    or a private window with a quota of zero).
  \<^item> \<open>items\<close>: the key-value content of \<^verbatim>\<open>localStorage\<close>.
  \<^item> \<open>media_matches\<close>: the \<^verbatim>\<open>matches\<close> field of \<^verbatim>\<open>window.matchMedia(query)\<close>.
  \<^item> \<open>html_classes\<close>, \<open>body_classes\<close>: the class lists of
    \<^verbatim>\<open>document.documentElement\<close> and \<^verbatim>\<open>document.body\<close>.
  \<^item> \<open>calls\<close>: a history of the browser calls made so far, oldest first. The source has
    no such variable; the history only records the order of the calls, and no function
    ever reads it. A call is entered when the source reaches it with a window (or, for a
    toggle, a document) present, whether the browser then carries it out or throws.

  The two storage failures are those of the HTML standard: the \<^verbatim>\<open>localStorage\<close> getter
  throws a \<^verbatim>\<open>SecurityError\<close> when the user agent denies the page its storage, which fails
  reads and writes alike, and \<^verbatim>\<open>setItem\<close> throws a \<^verbatim>\<open>QuotaExceededError\<close> when the new
  value cannot be stored. Without a window, the expression \<^verbatim>\<open>window.localStorage\<close> throws
  a \<^verbatim>\<open>ReferenceError\<close>.

  The DOM typings give \<^verbatim>\<open>document.body\<close> the type \<^verbatim>\<open>HTMLElement\<close> and
  \<^verbatim>\<open>window.matchMedia\<close> a function type, so whenever \<^verbatim>\<open>document\<close> (or \<^verbatim>\<open>window\<close>)
  is defined both are taken to be present. An exception leaves the browser state as it was
  at the point of the throw, so every function returns the state next to its outcome.
\<close>

datatype ThemeMode = Light | Dark

datatype js_error = ReferenceError | SecurityError | QuotaExceededError

datatype target = DocumentElement | Body

datatype call =
    GetItem string
  | SetItem string string
  | MatchMedia string
  | Toggle target string bool

record browser =
  window_defined :: bool
  document_defined :: bool
  storage_denied :: bool
  quota_exceeded :: bool
  items :: "string \<rightharpoonup> string"
  media_matches :: "string \<Rightarrow> bool"
  html_classes :: "string set"
  body_classes :: "string set"
  calls :: "call list"

text \<open>The string a \<^verbatim>\<open>ThemeMode\<close> is at run time: the type is \<^verbatim>\<open>'light' | 'dark'\<close>.\<close>

fun theme_string :: "ThemeMode \<Rightarrow> string" where
  "theme_string Light = ''light''"
| "theme_string Dark = ''dark''"

definition THEME_STORAGE_KEY :: string where
  "THEME_STORAGE_KEY = ''vectorlab-theme''"

subsection \<open>Browser calls\<close>

text \<open>\<^verbatim>\<open>window.localStorage.getItem(key)\<close>.\<close>

definition localStorage_getItem ::
  "string \<Rightarrow> browser \<Rightarrow> (js_error + string option) \<times> browser" where
  "localStorage_getItem key b =
     (if window_defined b then
        (if storage_denied b then Inl SecurityError else Inr (items b key),
         b\<lparr>calls := calls b @ [GetItem key]\<rparr>)
      else (Inl ReferenceError, b))"

text \<open>\<^verbatim>\<open>window.localStorage.setItem(key, value)\<close>.\<close>

definition localStorage_setItem ::
  "string \<Rightarrow> string \<Rightarrow> browser \<Rightarrow> (js_error + unit) \<times> browser" where
  "localStorage_setItem key v b =
     (if window_defined b then
        (if storage_denied b then
           (Inl SecurityError, b\<lparr>calls := calls b @ [SetItem key v]\<rparr>)
         else if quota_exceeded b then
           (Inl QuotaExceededError, b\<lparr>calls := calls b @ [SetItem key v]\<rparr>)
         else
           (Inr (), b\<lparr>items := (items b)(key \<mapsto> v), calls := calls b @ [SetItem key v]\<rparr>))
      else (Inl ReferenceError, b))"

text \<open>\<^verbatim>\<open>window.matchMedia(query).matches\<close>, called only where \<^verbatim>\<open>window\<close> is defined.\<close>

definition matchMedia :: "string \<Rightarrow> browser \<Rightarrow> bool \<times> browser" where
  "matchMedia query b = (media_matches b query, b\<lparr>calls := calls b @ [MatchMedia query]\<rparr>)"

text \<open>
  \<^verbatim>\<open>element.classList.toggle(name, force)\<close>: with \<open>force\<close> the class is added, without it
  the class is removed.
\<close>

definition toggle :: "string \<Rightarrow> bool \<Rightarrow> string set \<Rightarrow> string set" where
  "toggle name force classes = (if force then insert name classes else classes - {name})"

fun classList_toggle :: "target \<Rightarrow> string \<Rightarrow> bool \<Rightarrow> browser \<Rightarrow> browser" where
  "classList_toggle DocumentElement name force b =
     b\<lparr>html_classes := toggle name force (html_classes b),
       calls := calls b @ [Toggle DocumentElement name force]\<rparr>"
| "classList_toggle Body name force b =
     b\<lparr>body_classes := toggle name force (body_classes b),
       calls := calls b @ [Toggle Body name force]\<rparr>"

section \<open>The theme module\<close>

text \<open>
  \<^verbatim>\<open>getStoredTheme\<close>: \<^verbatim>\<open>null\<close> without a window; otherwise the stored string when it is
  \<^verbatim>\<open>'light'\<close> or \<^verbatim>\<open>'dark'\<close>, else \<^verbatim>\<open>null\<close>. The read is not inside a
  \<^verbatim>\<open>try\<close>.
\<close>

definition getStoredTheme :: "browser \<Rightarrow> (js_error + ThemeMode option) \<times> browser" where
  "getStoredTheme b =
     (if \<not> window_defined b then (Inr None, b)
      else
        (case localStorage_getItem THEME_STORAGE_KEY b of
           (Inl err, b') \<Rightarrow> (Inl err, b')
         | (Inr v, b') \<Rightarrow>
             (if v = Some ''light'' then (Inr (Some Light), b')
              else if v = Some ''dark'' then (Inr (Some Dark), b')
              else (Inr None, b'))))"

text \<open>\<^verbatim>\<open>detectPreferredTheme\<close>: \<^verbatim>\<open>&&\<close> does not evaluate its right side without a window.\<close>

definition detectPreferredTheme :: "browser \<Rightarrow> ThemeMode \<times> browser" where
  "detectPreferredTheme b =
     (if window_defined b then
        (case matchMedia ''(prefers-color-scheme: dark)'' b of
           (m, b') \<Rightarrow> (if m then Dark else Light, b'))
      else (Light, b))"

text \<open>\<^verbatim>\<open>applyTheme\<close>: the document element first, the body second.\<close>

definition applyTheme :: "ThemeMode \<Rightarrow> browser \<Rightarrow> browser" where
  "applyTheme theme b =
     (if \<not> document_defined b then b
      else classList_toggle Body ''dark'' (theme = Dark)
             (classList_toggle DocumentElement ''dark'' (theme = Dark) b))"

text \<open>\<^verbatim>\<open>setTheme\<close>: the write is not inside a \<^verbatim>\<open>try\<close>.\<close>

definition setTheme :: "ThemeMode \<Rightarrow> browser \<Rightarrow> (js_error + unit) \<times> browser" where
  "setTheme theme b =
     (if \<not> window_defined b then (Inr (), b)
      else localStorage_setItem THEME_STORAGE_KEY (theme_string theme) (applyTheme theme b))"

text \<open>
  \<^verbatim>\<open>initTheme\<close>. \<^verbatim>\<open>stored ?? detectPreferredTheme()\<close> calls the detection only when
  \<open>stored\<close> is \<^verbatim>\<open>null\<close>; \<^verbatim>\<open>!stored\<close> holds exactly then, both theme strings being
  non-empty. The \<^verbatim>\<open>try\<close> covers the write alone, and its \<^verbatim>\<open>catch\<close> drops whatever the
  write throws, the \<^verbatim>\<open>ReferenceError\<close> of a missing window included.
\<close>

definition initTheme :: "browser \<Rightarrow> (js_error + ThemeMode) \<times> browser" where
  "initTheme b =
     (case getStoredTheme b of
        (Inl err, b1) \<Rightarrow> (Inl err, b1)
      | (Inr stored, b1) \<Rightarrow>
          (case (case stored of Some t \<Rightarrow> (t, b1) | None \<Rightarrow> detectPreferredTheme b1) of
             (theme, b2) \<Rightarrow>
               (let b3 = applyTheme theme b2 in
                if stored = None then
                  (case localStorage_setItem THEME_STORAGE_KEY (theme_string theme) b3 of
                     (Inl err, b4) \<Rightarrow> (Inr theme, b4)
                   | (Inr u, b4) \<Rightarrow> (Inr theme, b4))
                else (Inr theme, b3))))"

text \<open>
  The browser state proper: everything but the history of calls.
\<close>

definition forget_calls :: "browser \<Rightarrow> browser" where
  "forget_calls b = b\<lparr>calls := []\<rparr>"

subsection \<open>Sequences of operations\<close>

text \<open>
  A caller may use the three state-changing functions in any order. An operation that
  throws still leaves a browser state behind, and the caller goes on from it.
\<close>

datatype operation = ApplyTheme ThemeMode | SetTheme ThemeMode | InitTheme

fun perform :: "operation \<Rightarrow> browser \<Rightarrow> browser" where
  "perform (ApplyTheme theme) b = applyTheme theme b"
| "perform (SetTheme theme) b = snd (setTheme theme b)"
| "perform InitTheme b = snd (initTheme b)"

fun run :: "operation list \<Rightarrow> browser \<Rightarrow> browser" where
  "run [] b = b"
| "run (x # xs) b = run xs (perform x b)"

definition roots_agree :: "browser \<Rightarrow> bool" where
  "roots_agree b = ((''dark'' \<in> html_classes b) = (''dark'' \<in> body_classes b))"

subsection \<open>Some browsers\<close>

text \<open>
  A page in an ordinary window whose user prefers a dark colour scheme, with nothing
  stored yet; the same page with site data blocked; the same page in a private window
  that rejects every write; and two pages that come with a stored value.
\<close>

definition fresh_page :: browser where
  "fresh_page =
     \<lparr>window_defined = True, document_defined = True,
      storage_denied = False, quota_exceeded = False,
      items = Map.empty,
      media_matches = (\<lambda>q. q = ''(prefers-color-scheme: dark)''),
      html_classes = {''h-full''}, body_classes = {},
      calls = []\<rparr>"

definition blocked_page :: browser where
  "blocked_page = fresh_page\<lparr>storage_denied := True\<rparr>"

definition private_page :: browser where
  "private_page = fresh_page\<lparr>quota_exceeded := True\<rparr>"

definition purple_page :: browser where
  "purple_page = fresh_page\<lparr>items := [''vectorlab-theme'' \<mapsto> ''purple'']\<rparr>"

definition dark_stored_page :: browser where
  "dark_stored_page =
     fresh_page\<lparr>items := [''vectorlab-theme'' \<mapsto> ''dark''], media_matches := (\<lambda>q. False)\<rparr>"

section \<open>Number formatting\<close>

text \<open>
  \<^verbatim>\<open>utils/format\<close>. A JavaScript number is a finite value, one of the two infinities,
  the negative zero or NaN; \<open>Finite 0\<close> is the positive zero. The functions below compare
  a number with zero and test its truthiness, and do no arithmetic, so finite values are
  taken as reals. \<^verbatim>\<open>Intl.NumberFormat().format\<close> depends on the host's locale and is a
  parameter.
\<close>

datatype number = Finite real | NegZero | Infinity | NegInfinity | NaN

text \<open>\<^verbatim>\<open>!x\<close> for a number: the zeros and NaN are falsy.\<close>

fun falsy :: "number \<Rightarrow> bool" where
  "falsy (Finite r) = (r = 0)"
| "falsy NegZero = True"
| "falsy NaN = True"
| "falsy Infinity = False"
| "falsy NegInfinity = False"

text \<open>\<^verbatim>\<open>x < 0\<close> for a number: false for NaN and for the negative zero.\<close>

fun less_zero :: "number \<Rightarrow> bool" where
  "less_zero (Finite r) = (r < 0)"
| "less_zero NegInfinity = True"
| "less_zero NegZero = False"
| "less_zero Infinity = False"
| "less_zero NaN = False"

definition formatNumber :: "(number \<Rightarrow> string) \<Rightarrow> number \<Rightarrow> string" where
  "formatNumber intl_format v = intl_format v"

text \<open>\<^verbatim>\<open>formatVectorLimit\<close>: \<^verbatim>\<open>!limit\<close> holds for \<^verbatim>\<open>null\<close> as well.\<close>

definition formatVectorLimit :: "(number \<Rightarrow> string) \<Rightarrow> number \<Rightarrow> number option \<Rightarrow> string" where
  "formatVectorLimit intl_format current limit =
     (case limit of
        None \<Rightarrow> formatNumber intl_format current @ '' / Unlimited''
      | Some l \<Rightarrow>
          (if falsy l \<or> less_zero l then formatNumber intl_format current @ '' / Unlimited''
           else formatNumber intl_format current @ '' / '' @ formatNumber intl_format l))"

text \<open>
  The words of the claim about limits: a number is zero, negative or strictly positive.
  NaN is none of the three.
\<close>

fun is_zero :: "number \<Rightarrow> bool" where
  "is_zero (Finite r) = (r = 0)"
| "is_zero NegZero = True"
| "is_zero n = False"

fun is_negative :: "number \<Rightarrow> bool" where
  "is_negative (Finite r) = (r < 0)"
| "is_negative NegInfinity = True"
| "is_negative n = False"

fun is_positive :: "number \<Rightarrow> bool" where
  "is_positive (Finite r) = (0 < r)"
| "is_positive Infinity = True"
| "is_positive n = False"

text \<open>A formatter for the examples: it tells apart only the numbers the examples use.\<close>

fun sample_format :: "number \<Rightarrow> string" where
  "sample_format (Finite r) =
     (if r = 1200 then ''1,200'' else if r = 5000 then ''5,000'' else if r = 0 then ''0'' else ''#'')"
| "sample_format n = ''#''"

section \<open>Properties of applyTheme\<close>

lemma toggle_member: "c \<in> toggle name force classes \<longleftrightarrow> (if c = name then force else c \<in> classes)"
  by (simp add: toggle_def)

lemma toggle_toggle: "toggle name force (toggle name force classes) = toggle name force classes"
  by (auto simp: toggle_def)

lemma applyTheme_html:
  "html_classes (applyTheme theme b) =
     (if document_defined b then toggle ''dark'' (theme = Dark) (html_classes b) else html_classes b)"
  by (simp add: applyTheme_def)

lemma applyTheme_body:
  "body_classes (applyTheme theme b) =
     (if document_defined b then toggle ''dark'' (theme = Dark) (body_classes b) else body_classes b)"
  by (simp add: applyTheme_def)

lemma applyTheme_calls:
  "calls (applyTheme theme b) =
     calls b @ (if document_defined b
                then [Toggle DocumentElement ''dark'' (theme = Dark), Toggle Body ''dark'' (theme = Dark)]
                else [])"
  by (simp add: applyTheme_def)

lemma applyTheme_env [simp]:
  "window_defined (applyTheme theme b) = window_defined b"
  "document_defined (applyTheme theme b) = document_defined b"
  "storage_denied (applyTheme theme b) = storage_denied b"
  "quota_exceeded (applyTheme theme b) = quota_exceeded b"
  "items (applyTheme theme b) = items b"
  "media_matches (applyTheme theme b) = media_matches b"
  by (simp_all add: applyTheme_def)

text \<open>
  C8. \<^verbatim>\<open>applyTheme\<close> leaves the stored preference as it was. It changes nothing but the
  two class lists (and the history of calls); with a document, each of the two root
  elements carries \<^verbatim>\<open>dark\<close> afterwards exactly when the mode is \<open>Dark\<close>, and every other
  class is as before; without a document it changes nothing at all.
\<close>

theorem applyTheme_frame:
  "items (applyTheme theme b) THEME_STORAGE_KEY = items b THEME_STORAGE_KEY
   \<and> applyTheme theme b =
       b\<lparr>html_classes := html_classes (applyTheme theme b),
         body_classes := body_classes (applyTheme theme b),
         calls := calls (applyTheme theme b)\<rparr>
   \<and> (document_defined b \<longrightarrow>
        ((''dark'' \<in> html_classes (applyTheme theme b)) = (theme = Dark))
        \<and> ((''dark'' \<in> body_classes (applyTheme theme b)) = (theme = Dark))
        \<and> (\<forall>c. c \<noteq> ''dark'' \<longrightarrow>
              ((c \<in> html_classes (applyTheme theme b)) = (c \<in> html_classes b))
              \<and> ((c \<in> body_classes (applyTheme theme b)) = (c \<in> body_classes b))))
   \<and> (\<not> document_defined b \<longrightarrow> applyTheme theme b = b)"
proof -
  have frame: "applyTheme theme b =
       b\<lparr>html_classes := html_classes (applyTheme theme b),
         body_classes := body_classes (applyTheme theme b),
         calls := calls (applyTheme theme b)\<rparr>"
    by (simp add: applyTheme_def)
  have off: "\<not> document_defined b \<Longrightarrow> applyTheme theme b = b"
    by (simp add: applyTheme_def)
  show ?thesis
    using frame off by (simp add: applyTheme_html applyTheme_body toggle_member)
qed

theorem applyTheme_frame_witness:
  "document_defined fresh_page
   \<and> items (applyTheme Dark purple_page) THEME_STORAGE_KEY = Some ''purple''
   \<and> ''dark'' \<in> html_classes (applyTheme Dark fresh_page)
   \<and> ''dark'' \<in> body_classes (applyTheme Dark fresh_page)
   \<and> ''h-full'' \<in> html_classes (applyTheme Dark fresh_page)
   \<and> ''dark'' \<notin> html_classes (applyTheme Light fresh_page)
   \<and> applyTheme Dark (fresh_page\<lparr>document_defined := False\<rparr>) = fresh_page\<lparr>document_defined := False\<rparr>"
  using applyTheme_frame [of Dark purple_page] applyTheme_frame [of Dark fresh_page]
    applyTheme_frame [of Light fresh_page]
    applyTheme_frame [of Dark "fresh_page\<lparr>document_defined := False\<rparr>"]
  by (simp add: fresh_page_def purple_page_def THEME_STORAGE_KEY_def)

text \<open>
  C7. Applying a mode twice leaves the browser as applying it once does, and \<open>Dark\<close>
  followed by \<open>Light\<close> leaves neither root element with \<^verbatim>\<open>dark\<close>.
\<close>

theorem applyTheme_idempotent:
  "forget_calls (applyTheme theme (applyTheme theme b)) = forget_calls (applyTheme theme b)
   \<and> (document_defined b \<longrightarrow>
        ''dark'' \<notin> html_classes (applyTheme Light (applyTheme Dark b))
        \<and> ''dark'' \<notin> body_classes (applyTheme Light (applyTheme Dark b)))"
  by (simp add: forget_calls_def applyTheme_def toggle_toggle toggle_member)

theorem applyTheme_idempotent_witness:
  "document_defined fresh_page
   \<and> forget_calls (applyTheme Dark (applyTheme Dark fresh_page)) = forget_calls (applyTheme Dark fresh_page)
   \<and> ''dark'' \<notin> html_classes (applyTheme Light (applyTheme Dark fresh_page))
   \<and> ''dark'' \<notin> body_classes (applyTheme Light (applyTheme Dark fresh_page))"
  using applyTheme_idempotent [of Dark fresh_page]
  by (simp add: fresh_page_def)

section \<open>Reading the stored preference\<close>

lemma getStoredTheme_no_window:
  "\<not> window_defined b \<Longrightarrow> getStoredTheme b = (Inr None, b)"
  by (simp add: getStoredTheme_def)

lemma getStoredTheme_readable:
  assumes "window_defined b" and "\<not> storage_denied b"
  shows "getStoredTheme b =
     (Inr (if items b THEME_STORAGE_KEY = Some ''light'' then Some Light
           else if items b THEME_STORAGE_KEY = Some ''dark'' then Some Dark
           else None),
      b\<lparr>calls := calls b @ [GetItem THEME_STORAGE_KEY]\<rparr>)"
  using assms by (simp add: getStoredTheme_def localStorage_getItem_def)

lemma getStoredTheme_denied:
  assumes "window_defined b" and "storage_denied b"
  shows "getStoredTheme b = (Inl SecurityError, b\<lparr>calls := calls b @ [GetItem THEME_STORAGE_KEY]\<rparr>)"
  using assms by (simp add: getStoredTheme_def localStorage_getItem_def)

lemma theme_string_inject: "theme_string m = theme_string m' \<longleftrightarrow> m = m'"
  by (cases m; cases m') simp_all

lemma theme_string_cases: "theme_string m = ''light'' \<longleftrightarrow> m = Light" "theme_string m = ''dark'' \<longleftrightarrow> m = Dark"
  by (cases m, simp_all)+

lemma detectPreferredTheme_window:
  "window_defined b \<Longrightarrow>
     detectPreferredTheme b =
       (if media_matches b ''(prefers-color-scheme: dark)'' then Dark else Light,
        b\<lparr>calls := calls b @ [MatchMedia ''(prefers-color-scheme: dark)'']\<rparr>)"
  by (simp add: detectPreferredTheme_def matchMedia_def)

lemma localStorage_setItem_classes:
  "html_classes (snd (localStorage_setItem key v b)) = html_classes b"
  "body_classes (snd (localStorage_setItem key v b)) = body_classes b"
  by (simp_all add: localStorage_setItem_def)

lemma localStorage_setItem_items:
  "items (snd (localStorage_setItem key v b)) =
     (if window_defined b \<and> \<not> storage_denied b \<and> \<not> quota_exceeded b
      then (items b)(key \<mapsto> v) else items b)"
  by (simp add: localStorage_setItem_def)

lemma localStorage_setItem_calls:
  "window_defined b \<Longrightarrow>
     calls (snd (localStorage_setItem key v b)) = calls b @ [SetItem key v]"
  by (simp add: localStorage_setItem_def)

section \<open>initTheme\<close>

text \<open>The three paths through \<^verbatim>\<open>initTheme\<close>: the read throws, a mode is stored, none is.\<close>

lemma initTheme_paths:
  "initTheme b =
     (case getStoredTheme b of
        (Inl err, b1) \<Rightarrow> (Inl err, b1)
      | (Inr (Some t), b1) \<Rightarrow> (Inr t, applyTheme t b1)
      | (Inr None, b1) \<Rightarrow>
          (Inr (fst (detectPreferredTheme b1)),
           snd (localStorage_setItem THEME_STORAGE_KEY
                  (theme_string (fst (detectPreferredTheme b1)))
                  (applyTheme (fst (detectPreferredTheme b1)) (snd (detectPreferredTheme b1))))))"
  by (simp add: initTheme_def Let_def split: prod.splits sum.splits option.splits)

text \<open>
  C4. In a page that rejects every write, with nothing stored and a user who prefers
  the dark scheme, \<^verbatim>\<open>initTheme\<close> returns \<open>Dark\<close> and applies it, and the store
  holds nothing under the key afterwards: the rejected write is dropped by the
  \<^verbatim>\<open>catch\<close>.
\<close>

theorem initTheme_store_not_written:
  "window_defined private_page
   \<and> items private_page THEME_STORAGE_KEY = None
   \<and> media_matches private_page ''(prefers-color-scheme: dark)''
   \<and> fst (initTheme private_page) = Inr Dark
   \<and> ''dark'' \<in> html_classes (snd (initTheme private_page))
   \<and> ''dark'' \<in> body_classes (snd (initTheme private_page))
   \<and> items (snd (initTheme private_page)) THEME_STORAGE_KEY = None"
  by (simp add: initTheme_def getStoredTheme_def localStorage_getItem_def
      localStorage_setItem_def detectPreferredTheme_def matchMedia_def applyTheme_def toggle_def
      THEME_STORAGE_KEY_def private_page_def fresh_page_def)

text \<open>
  C4, as the code has it. With a window whose storage can be read, and a stored value
  that is neither \<^verbatim>\<open>'light'\<close> nor \<^verbatim>\<open>'dark'\<close> (no value at all, or any other string),
  \<^verbatim>\<open>initTheme\<close> returns what \<^verbatim>\<open>detectPreferredTheme\<close> returns, which is \<open>Dark\<close> exactly when
  the media query matches; with a document both root elements carry \<^verbatim>\<open>dark\<close> exactly when
  the mode is \<open>Dark\<close>; the calls made are the read, the media query, the two toggles and
  the write of that mode's string, in this order; where the storage takes the write the
  store then holds that string under the key, whatever it held before, and where the
  storage rejects the write the store is as it was.
\<close>

theorem initTheme_without_preference:
  assumes "window_defined b" and "\<not> storage_denied b"
    and "items b THEME_STORAGE_KEY \<noteq> Some ''light''"
    and "items b THEME_STORAGE_KEY \<noteq> Some ''dark''"
  shows "fst (initTheme b) = Inr (fst (detectPreferredTheme b))
    \<and> fst (detectPreferredTheme b) =
        (if media_matches b ''(prefers-color-scheme: dark)'' then Dark else Light)
    \<and> (document_defined b \<longrightarrow>
         ((''dark'' \<in> html_classes (snd (initTheme b))) = (fst (detectPreferredTheme b) = Dark))
         \<and> ((''dark'' \<in> body_classes (snd (initTheme b))) = (fst (detectPreferredTheme b) = Dark)))
    \<and> calls (snd (initTheme b)) =
        calls b
        @ [GetItem THEME_STORAGE_KEY, MatchMedia ''(prefers-color-scheme: dark)'']
        @ (if document_defined b
           then [Toggle DocumentElement ''dark'' (fst (detectPreferredTheme b) = Dark),
                 Toggle Body ''dark'' (fst (detectPreferredTheme b) = Dark)]
           else [])
        @ [SetItem THEME_STORAGE_KEY (theme_string (fst (detectPreferredTheme b)))]
    \<and> (\<not> quota_exceeded b \<longrightarrow>
         items (snd (initTheme b)) =
           (items b)(THEME_STORAGE_KEY \<mapsto> theme_string (fst (detectPreferredTheme b))))
    \<and> (quota_exceeded b \<longrightarrow> items (snd (initTheme b)) = items b)"
proof -
  let ?b1 = "b\<lparr>calls := calls b @ [GetItem THEME_STORAGE_KEY]\<rparr>"
  have stored: "getStoredTheme b = (Inr None, ?b1)"
    using assms by (simp add: getStoredTheme_readable)
  show ?thesis
    using assms(1,2)
    by (simp add: initTheme_paths stored detectPreferredTheme_window
        localStorage_setItem_classes localStorage_setItem_items localStorage_setItem_calls
        applyTheme_html applyTheme_body applyTheme_calls toggle_member)
qed

theorem initTheme_without_preference_witness:
  "window_defined fresh_page \<and> \<not> storage_denied fresh_page \<and> \<not> quota_exceeded fresh_page
   \<and> items fresh_page THEME_STORAGE_KEY = None
   \<and> items purple_page THEME_STORAGE_KEY = Some ''purple''
   \<and> fst (initTheme fresh_page) = Inr Dark
   \<and> items (snd (initTheme fresh_page)) THEME_STORAGE_KEY = Some ''dark''
   \<and> ''dark'' \<in> html_classes (snd (initTheme fresh_page))
   \<and> ''dark'' \<in> body_classes (snd (initTheme fresh_page))
   \<and> fst (initTheme purple_page) = Inr Dark
   \<and> items (snd (initTheme purple_page)) THEME_STORAGE_KEY = Some ''dark''
   \<and> fst (initTheme (purple_page\<lparr>media_matches := (\<lambda>q. False)\<rparr>)) = Inr Light
   \<and> items (snd (initTheme (purple_page\<lparr>media_matches := (\<lambda>q. False)\<rparr>))) THEME_STORAGE_KEY
       = Some ''light''
   \<and> quota_exceeded (purple_page\<lparr>quota_exceeded := True\<rparr>)
   \<and> fst (initTheme (purple_page\<lparr>quota_exceeded := True\<rparr>)) = Inr Dark
   \<and> items (snd (initTheme (purple_page\<lparr>quota_exceeded := True\<rparr>))) THEME_STORAGE_KEY
       = Some ''purple''"
  using initTheme_without_preference [of fresh_page]
    initTheme_without_preference [of purple_page]
    initTheme_without_preference [of "purple_page\<lparr>media_matches := (\<lambda>q. False)\<rparr>"]
    initTheme_without_preference [of "purple_page\<lparr>quota_exceeded := True\<rparr>"]
  by (simp add: fresh_page_def purple_page_def THEME_STORAGE_KEY_def)

text \<open>
  C5. With a window whose storage can be read and a stored value that is the string of a
  mode \<open>m\<close>, \<^verbatim>\<open>initTheme\<close> returns \<open>m\<close>, whatever the media query would answer; the store
  is as it was; and the calls made are the read and the two toggles: no media query and no
  write.
\<close>

theorem initTheme_stored_preference:
  assumes "window_defined b" and "\<not> storage_denied b"
    and "items b THEME_STORAGE_KEY = Some (theme_string m)"
  shows "fst (initTheme b) = Inr m
    \<and> fst (initTheme (b\<lparr>media_matches := signal\<rparr>)) = Inr m
    \<and> items (snd (initTheme b)) = items b
    \<and> calls (snd (initTheme b)) =
        calls b
        @ [GetItem THEME_STORAGE_KEY]
        @ (if document_defined b
           then [Toggle DocumentElement ''dark'' (m = Dark), Toggle Body ''dark'' (m = Dark)]
           else [])"
proof -
  have stored: "getStoredTheme b = (Inr (Some m), b\<lparr>calls := calls b @ [GetItem THEME_STORAGE_KEY]\<rparr>)"
    using assms by (cases m) (simp_all add: getStoredTheme_readable)
  have stored': "getStoredTheme (b\<lparr>media_matches := signal\<rparr>) =
      (Inr (Some m), b\<lparr>media_matches := signal, calls := calls b @ [GetItem THEME_STORAGE_KEY]\<rparr>)"
    using assms by (cases m) (simp_all add: getStoredTheme_readable)
  show ?thesis
    by (simp add: initTheme_def stored stored' applyTheme_calls)
qed

theorem initTheme_stored_preference_witness:
  "window_defined dark_stored_page \<and> \<not> storage_denied dark_stored_page
   \<and> items dark_stored_page THEME_STORAGE_KEY = Some (theme_string Dark)
   \<and> \<not> media_matches dark_stored_page ''(prefers-color-scheme: dark)''
   \<and> fst (initTheme dark_stored_page) = Inr Dark
   \<and> items (snd (initTheme dark_stored_page)) = items dark_stored_page
   \<and> calls (snd (initTheme dark_stored_page)) =
       [GetItem ''vectorlab-theme'', Toggle DocumentElement ''dark'' True, Toggle Body ''dark'' True]"
  using initTheme_stored_preference [of dark_stored_page Dark]
  by (simp add: dark_stored_page_def fresh_page_def THEME_STORAGE_KEY_def)

text \<open>
  What \<^verbatim>\<open>initTheme\<close> does in general. Without a window, or with a storage that can be
  read, it returns a mode, and with a document both root elements carry \<^verbatim>\<open>dark\<close> exactly
  when that mode is \<open>Dark\<close>; a write that is rejected changes neither.
\<close>

lemma initTheme_returns:
  assumes "\<not> window_defined b \<or> \<not> storage_denied b"
  shows "\<exists>theme. fst (initTheme b) = Inr theme
    \<and> (document_defined b \<longrightarrow>
         ((''dark'' \<in> html_classes (snd (initTheme b))) = (theme = Dark))
         \<and> ((''dark'' \<in> body_classes (snd (initTheme b))) = (theme = Dark)))"
proof (cases "window_defined b")
  case False
  then show ?thesis
    by (simp add: initTheme_paths getStoredTheme_no_window detectPreferredTheme_def
        localStorage_setItem_classes applyTheme_html applyTheme_body toggle_member)
next
  case True
  with assms have readable: "\<not> storage_denied b" by simp
  show ?thesis
    using True readable
    by (simp add: initTheme_paths getStoredTheme_readable detectPreferredTheme_window
        localStorage_setItem_classes applyTheme_html applyTheme_body toggle_member)
qed

lemma initTheme_rejected_write:
  assumes "window_defined b" and "\<not> storage_denied b" and "quota_exceeded b"
    and "items b THEME_STORAGE_KEY \<noteq> Some ''light''"
    and "items b THEME_STORAGE_KEY \<noteq> Some ''dark''"
  shows "fst (initTheme b) = Inr (fst (detectPreferredTheme b))
    \<and> items (snd (initTheme b)) = items b
    \<and> html_classes (snd (initTheme b)) = html_classes (applyTheme (fst (detectPreferredTheme b)) b)
    \<and> body_classes (snd (initTheme b)) = body_classes (applyTheme (fst (detectPreferredTheme b)) b)"
  using assms
  by (simp add: initTheme_paths getStoredTheme_readable detectPreferredTheme_window
      localStorage_setItem_classes localStorage_setItem_items applyTheme_html applyTheme_body)

text \<open>
  C1. With site data blocked, the read at the start of \<^verbatim>\<open>initTheme\<close> throws, and
  \<^verbatim>\<open>initTheme\<close> throws with it: no mode is returned and no theme is applied, although
  the user prefers the dark scheme.
\<close>

theorem initTheme_blocked_storage:
  "fst (initTheme blocked_page) = Inl SecurityError
   \<and> html_classes (snd (initTheme blocked_page)) = html_classes blocked_page
   \<and> body_classes (snd (initTheme blocked_page)) = body_classes blocked_page
   \<and> media_matches blocked_page ''(prefers-color-scheme: dark)''"
  by (simp add: initTheme_def getStoredTheme_def localStorage_getItem_def THEME_STORAGE_KEY_def
      blocked_page_def fresh_page_def)

text \<open>
  C3. With site data blocked, \<^verbatim>\<open>getStoredTheme\<close> throws a \<^verbatim>\<open>SecurityError\<close> instead of
  returning \<^verbatim>\<open>null\<close>.
\<close>

theorem getStoredTheme_blocked_storage:
  "window_defined blocked_page \<and> fst (getStoredTheme blocked_page) = Inl SecurityError"
  by (simp add: getStoredTheme_def localStorage_getItem_def blocked_page_def fresh_page_def)

section \<open>setTheme\<close>

text \<open>
  C6. In a page with a window, a document and a storage that rejects every write,
  \<^verbatim>\<open>setTheme\<close> is not a no-op, since it puts \<^verbatim>\<open>dark\<close> on the root elements, and it
  does not leave the mode's string in the store either.
\<close>

theorem setTheme_store_not_written:
  "window_defined private_page \<and> document_defined private_page
   \<and> ''dark'' \<notin> html_classes private_page
   \<and> ''dark'' \<in> html_classes (snd (setTheme Dark private_page))
   \<and> ''dark'' \<in> body_classes (snd (setTheme Dark private_page))
   \<and> items (snd (setTheme Dark private_page)) THEME_STORAGE_KEY = None"
  by (simp add: setTheme_def localStorage_setItem_def applyTheme_def toggle_def
      THEME_STORAGE_KEY_def private_page_def fresh_page_def)

text \<open>
  C6, as the code has it. With a window, \<^verbatim>\<open>setTheme\<close> first applies the theme: the class
  lists are left as \<^verbatim>\<open>applyTheme\<close> leaves them, so with a document both root elements
  carry \<^verbatim>\<open>dark\<close> exactly when the mode is \<open>Dark\<close>. Where the storage can be reached, the
  write of the mode's string under the key is called after the calls of \<^verbatim>\<open>applyTheme\<close>;
  where the storage also takes the write, \<^verbatim>\<open>setTheme\<close> returns, and the result is the
  state \<^verbatim>\<open>applyTheme\<close> leaves with the mode's string stored under the key, whatever was
  stored before. Without a window nothing happens.
\<close>

theorem setTheme_applies_then_writes:
  "(window_defined b \<longrightarrow>
      html_classes (snd (setTheme theme b)) = html_classes (applyTheme theme b)
      \<and> body_classes (snd (setTheme theme b)) = body_classes (applyTheme theme b)
      \<and> (document_defined b \<longrightarrow>
           ((''dark'' \<in> html_classes (snd (setTheme theme b))) = (theme = Dark))
           \<and> ((''dark'' \<in> body_classes (snd (setTheme theme b))) = (theme = Dark)))
      \<and> (\<not> storage_denied b \<longrightarrow>
           calls (snd (setTheme theme b)) =
             calls b
             @ (if document_defined b
                then [Toggle DocumentElement ''dark'' (theme = Dark),
                      Toggle Body ''dark'' (theme = Dark)]
                else [])
             @ [SetItem THEME_STORAGE_KEY (theme_string theme)])
      \<and> (\<not> storage_denied b \<and> \<not> quota_exceeded b \<longrightarrow>
           setTheme theme b =
             (Inr (),
              (applyTheme theme b)
                \<lparr>items := (items b)(THEME_STORAGE_KEY \<mapsto> theme_string theme),
                 calls := calls (applyTheme theme b)
                          @ [SetItem THEME_STORAGE_KEY (theme_string theme)]\<rparr>)))
   \<and> (\<not> window_defined b \<longrightarrow> setTheme theme b = (Inr (), b))"
proof -
  have off: "\<not> window_defined b \<Longrightarrow> setTheme theme b = (Inr (), b)"
    by (simp add: setTheme_def)
  have accepted: "window_defined b \<Longrightarrow> \<not> storage_denied b \<Longrightarrow> \<not> quota_exceeded b \<Longrightarrow>
      setTheme theme b =
        (Inr (),
         (applyTheme theme b)
           \<lparr>items := (items b)(THEME_STORAGE_KEY \<mapsto> theme_string theme),
            calls := calls (applyTheme theme b)
                     @ [SetItem THEME_STORAGE_KEY (theme_string theme)]\<rparr>)"
    by (simp add: setTheme_def localStorage_setItem_def)
  have classes: "window_defined b \<Longrightarrow>
      html_classes (snd (setTheme theme b)) = html_classes (applyTheme theme b)
      \<and> body_classes (snd (setTheme theme b)) = body_classes (applyTheme theme b)"
    by (simp add: setTheme_def localStorage_setItem_classes)
  have history: "window_defined b \<Longrightarrow>
      calls (snd (setTheme theme b)) =
        calls (applyTheme theme b) @ [SetItem THEME_STORAGE_KEY (theme_string theme)]"
    by (simp add: setTheme_def localStorage_setItem_calls)
  show ?thesis
    using off accepted classes history
    by (simp add: applyTheme_html applyTheme_body applyTheme_calls toggle_member)
qed

theorem setTheme_applies_then_writes_witness:
  "window_defined purple_page \<and> document_defined purple_page
   \<and> \<not> storage_denied purple_page \<and> \<not> quota_exceeded purple_page
   \<and> fst (setTheme Dark purple_page) = Inr ()
   \<and> items (snd (setTheme Dark purple_page)) THEME_STORAGE_KEY = Some ''dark''
   \<and> ''dark'' \<in> html_classes (snd (setTheme Dark purple_page))
   \<and> ''dark'' \<in> body_classes (snd (setTheme Dark purple_page))
   \<and> calls (snd (setTheme Dark purple_page)) =
       [Toggle DocumentElement ''dark'' True, Toggle Body ''dark'' True,
        SetItem ''vectorlab-theme'' ''dark'']
   \<and> setTheme Dark (purple_page\<lparr>window_defined := False\<rparr>)
       = (Inr (), purple_page\<lparr>window_defined := False\<rparr>)"
  using setTheme_applies_then_writes [of purple_page Dark]
    setTheme_applies_then_writes [of "purple_page\<lparr>window_defined := False\<rparr>" Dark]
  by (simp add: purple_page_def fresh_page_def THEME_STORAGE_KEY_def applyTheme_def toggle_def)

text \<open>
  C2. In a private window that rejects every write, \<^verbatim>\<open>setTheme\<close> throws the
  \<^verbatim>\<open>QuotaExceededError\<close> of the write to its caller, after the theme has been applied;
  \<^verbatim>\<open>initTheme\<close> makes the same write in the same window and returns.
\<close>

theorem setTheme_rejected_write:
  "fst (setTheme Dark private_page) = Inl QuotaExceededError
   \<and> ''dark'' \<in> html_classes (snd (setTheme Dark private_page))
   \<and> fst (initTheme private_page) = Inr Dark"
  by (simp add: setTheme_def initTheme_def getStoredTheme_def localStorage_getItem_def
      localStorage_setItem_def detectPreferredTheme_def matchMedia_def applyTheme_def toggle_def
      THEME_STORAGE_KEY_def private_page_def fresh_page_def)

section \<open>The two root elements agree\<close>

lemma applyTheme_roots_agree: "roots_agree b \<Longrightarrow> roots_agree (applyTheme theme b)"
  by (simp add: roots_agree_def applyTheme_html applyTheme_body toggle_member)

lemma setTheme_roots_agree: "roots_agree b \<Longrightarrow> roots_agree (snd (setTheme theme b))"
  using applyTheme_roots_agree [of b theme]
  by (simp add: roots_agree_def setTheme_def localStorage_setItem_classes)

lemma initTheme_roots_agree:
  assumes "roots_agree b"
  shows "roots_agree (snd (initTheme b))"
proof (cases "window_defined b")
  case False
  then show ?thesis
    using assms
    by (simp add: roots_agree_def initTheme_paths getStoredTheme_no_window
        detectPreferredTheme_def localStorage_setItem_classes applyTheme_html applyTheme_body
        toggle_member)
next
  case True
  show ?thesis
  proof (cases "storage_denied b")
    case True
    with \<open>window_defined b\<close> show ?thesis
      using assms by (simp add: initTheme_paths getStoredTheme_denied roots_agree_def)
  next
    case False
    with \<open>window_defined b\<close> show ?thesis
      using assms
      by (simp add: roots_agree_def initTheme_paths getStoredTheme_readable
          detectPreferredTheme_window localStorage_setItem_classes applyTheme_html
          applyTheme_body toggle_member)
  qed
qed

lemma perform_roots_agree: "roots_agree b \<Longrightarrow> roots_agree (perform x b)"
  by (cases x) (simp_all add: applyTheme_roots_agree setTheme_roots_agree initTheme_roots_agree)

text \<open>
  C9. Starting from a browser whose two root elements agree on \<^verbatim>\<open>dark\<close>, they agree
  after every sequence of \<^verbatim>\<open>applyTheme\<close>, \<^verbatim>\<open>setTheme\<close> and \<^verbatim>\<open>initTheme\<close> calls, whether the
  calls return or throw.
\<close>

theorem run_roots_agree: "roots_agree b \<Longrightarrow> roots_agree (run xs b)"
proof (induction xs arbitrary: b)
  case Nil
  then show ?case by simp
next
  case (Cons x xs)
  from Cons.prems have "roots_agree (perform x b)" by (rule perform_roots_agree)
  then have "roots_agree (run xs (perform x b))" by (rule Cons.IH)
  then show ?case by simp
qed

theorem run_roots_agree_witness:
  "roots_agree fresh_page
   \<and> roots_agree (run [InitTheme, SetTheme Light, ApplyTheme Dark] fresh_page)
   \<and> ''dark'' \<in> html_classes (run [InitTheme, SetTheme Light, ApplyTheme Dark] fresh_page)
   \<and> ''dark'' \<in> body_classes (run [InitTheme, SetTheme Light, ApplyTheme Dark] fresh_page)
   \<and> ''dark'' \<notin> html_classes (run [InitTheme, SetTheme Light] fresh_page)
   \<and> ''dark'' \<notin> body_classes (run [InitTheme, SetTheme Light] fresh_page)"
proof -
  define after_init where "after_init = snd (initTheme fresh_page)"
  define after_set where "after_set = snd (setTheme Light after_init)"
  have start: "roots_agree fresh_page"
    by (simp add: roots_agree_def fresh_page_def)
  have init:
    "window_defined after_init" "document_defined after_init"
    "html_classes after_init = {''dark'', ''h-full''}" "body_classes after_init = {''dark''}"
    unfolding after_init_def
    by (simp_all add: initTheme_def getStoredTheme_def localStorage_getItem_def
        localStorage_setItem_def detectPreferredTheme_def matchMedia_def applyTheme_def
        toggle_def THEME_STORAGE_KEY_def fresh_page_def)
  have set:
    "document_defined after_set"
    "html_classes after_set = {''h-full''}" "body_classes after_set = {}"
    unfolding after_set_def
    by (auto simp: init setTheme_def localStorage_setItem_def applyTheme_def toggle_def)
  have two: "run [InitTheme, SetTheme Light] fresh_page = after_set"
    by (simp add: after_set_def after_init_def)
  have three: "run [InitTheme, SetTheme Light, ApplyTheme Dark] fresh_page = applyTheme Dark after_set"
    by (simp add: after_set_def after_init_def)
  show ?thesis
    using start run_roots_agree [OF start, of "[InitTheme, SetTheme Light, ApplyTheme Dark]"]
    unfolding two three
    by (simp add: set applyTheme_html applyTheme_body toggle_def)
qed

section \<open>Properties of formatVectorLimit\<close>

lemma is_zero_falsy: "is_zero l \<Longrightarrow> falsy l"
  by (cases l) simp_all

lemma is_negative_less_zero: "is_negative l \<Longrightarrow> less_zero l"
  by (cases l) simp_all

lemma is_positive_neither: "is_positive l \<Longrightarrow> \<not> falsy l \<and> \<not> less_zero l"
  by (cases l) simp_all

text \<open>
  C10. \<^verbatim>\<open>formatVectorLimit\<close> gives the formatted current value followed by
  \<^verbatim>\<open>" / Unlimited"\<close> when the limit is \<^verbatim>\<open>null\<close>, negative or zero, and followed by
  \<^verbatim>\<open>" / "\<close> and the formatted limit when the limit is strictly positive.
\<close>

theorem formatVectorLimit_unlimited_or_limit:
  "formatVectorLimit intl_format current None
     = formatNumber intl_format current @ '' / Unlimited''
   \<and> (is_negative l \<or> is_zero l \<longrightarrow>
        formatVectorLimit intl_format current (Some l)
          = formatNumber intl_format current @ '' / Unlimited'')
   \<and> (is_positive l \<longrightarrow>
        formatVectorLimit intl_format current (Some l)
          = formatNumber intl_format current @ '' / '' @ formatNumber intl_format l)"
  using is_zero_falsy [of l] is_negative_less_zero [of l] is_positive_neither [of l]
  by (auto simp: formatVectorLimit_def)

theorem formatVectorLimit_unlimited_or_limit_witness:
  "is_zero (Finite 0) \<and> is_negative (Finite (- 1)) \<and> is_positive (Finite 5000)
   \<and> formatVectorLimit sample_format (Finite 1200) None = ''1,200 / Unlimited''
   \<and> formatVectorLimit sample_format (Finite 1200) (Some (Finite 0)) = ''1,200 / Unlimited''
   \<and> formatVectorLimit sample_format (Finite 1200) (Some (Finite (- 1))) = ''1,200 / Unlimited''
   \<and> formatVectorLimit sample_format (Finite 1200) (Some (Finite 5000)) = ''1,200 / 5,000''"
  using formatVectorLimit_unlimited_or_limit [of sample_format "Finite 1200" "Finite 0"]
    formatVectorLimit_unlimited_or_limit [of sample_format "Finite 1200" "Finite (- 1)"]
    formatVectorLimit_unlimited_or_limit [of sample_format "Finite 1200" "Finite 5000"]
  by (simp add: formatNumber_def)

end
